theory Spec2Isabelle
  imports Complex_Main "HOL-Library.Word" "HOL-Library.Log_Nat"
begin

section \<open>The execution environment of the wallet bridge\<close>

text \<open>
  The bridge (\<open>lib/web3\<close>) talks to \<open>window.ethereum\<close>, an object that may be absent,
  and the application shell (\<open>App.tsx\<close>) talks to \<open>localStorage\<close>. Both are made
  explicit here: every function takes the world and returns the world it leaves behind.

  A JavaScript string is a sequence of code units; \<open>length\<close>, \<open>substring\<close> and
  concatenation act on that sequence, which is what \<^typ>\<open>string\<close> models.
\<close>

text \<open>
  What a \<open>throw\<close> (or a rejected promise) carries: an \<open>Error\<close> instance with its
  message, for which \<open>error instanceof Error\<close> holds, or any other value.
\<close>

datatype thrown = JSError string | NonError string

text \<open>
  The state a promise ends in. \<open>Pending\<close> is the promise that never settles: an
  \<open>await\<close> on it never resumes.
\<close>

datatype 'a outcome = Resolved 'a | Rejected thrown | Pending

text \<open>
  The values \<open>request\<close> may resolve with, as far as \<open>connectWallet\<close> inspects them
  (the result is cast \<open>as string[]\<close>): \<open>undefined\<close>, \<open>null\<close> or an array of strings.
\<close>

datatype jsval = JUndefined | JNull | JStrings "string list"

text \<open>
  The argument of \<open>request\<close>: its two fields, the first of which cannot keep its source
  name here, a reserved word.
\<close>

record request_args =
  rpc_method :: string
  params :: "string list option"

record EthereumProvider =
  isMetaMask :: "bool option"
  request :: "request_args \<Rightarrow> jsval outcome"

text \<open>
  \<open>ethereum\<close> is \<open>window.ethereum\<close>; \<open>requests\<close> logs, in order, every invocation of
  its \<open>request\<close> method that the bridge makes itself; \<open>localStorage\<close> is the browser's
  key/value store.

  The two balance readers reach the chain through the ethers library
  (\<open>BrowserProvider\<close>, \<open>Contract\<close>), which is not part of the sources. What its two
  calls settle to is therefore a parameter of the world:
  \<open>provider_getBalance w address\<close> is the promise of
  \<open>new BrowserProvider(window.ethereum).getBalance(address)\<close>, a \<open>bigint\<close> that is never
  negative, and \<open>contract_balanceOf w token account\<close> is the promise of
  \<open>new Contract(token, USDC_ABI, provider).balanceOf(account)\<close>, which the interface
  declares as \<open>uint256\<close>.
\<close>

record world =
  ethereum :: "EthereumProvider option"
  requests :: "request_args list"
  localStorage :: "string \<rightharpoonup> string"
  provider_getBalance :: "string \<Rightarrow> nat outcome"
  contract_balanceOf :: "string \<Rightarrow> string \<Rightarrow> 256 word outcome"

section \<open>Wallet bridge: presence check and connect\<close>

definition checkMetaMask :: "world \<Rightarrow> bool" where
  "checkMetaMask w = (ethereum w \<noteq> None)"

text \<open>\<open>!accounts\<close>: \<open>undefined\<close> and \<open>null\<close> are falsy, every array is truthy.\<close>

fun falsy :: "jsval \<Rightarrow> bool" where
  "falsy JUndefined = True"
| "falsy JNull = True"
| "falsy (JStrings xs) = False"

text \<open>
  The \<open>catch\<close> block shared by the three asynchronous functions: an \<open>Error\<close> is thrown
  again as a new \<open>Error\<close> with the prefix put before its message, anything else is
  thrown again as it is.
\<close>

fun rethrow :: "string \<Rightarrow> thrown \<Rightarrow> thrown" where
  "rethrow prefix (JSError message) = JSError (prefix @ message)"
| "rethrow prefix (NonError v) = NonError v"

definition eth_requestAccounts :: request_args where
  "eth_requestAccounts = \<lparr>rpc_method = ''eth_requestAccounts'', params = None\<rparr>"

text \<open>The elements of an array; \<open>accounts.length\<close> and \<open>accounts[0]\<close> are asked of an array only.\<close>

fun elements :: "jsval \<Rightarrow> string list" where
  "elements (JStrings xs) = xs"
| "elements JUndefined = []"
| "elements JNull = []"

text \<open>
  \<open>connectWallet\<close>. The presence check is outside the \<open>try\<close>; the empty-list
  \<open>throw\<close> is inside it, so it goes through the \<open>catch\<close> block as a provider fault
  does. \<open>accounts[0]\<close> is only reached on a non-empty array.
\<close>

definition connectWallet :: "world \<Rightarrow> world \<times> string outcome" where
  "connectWallet w =
     (if \<not> checkMetaMask w then
        (w, Rejected (JSError ''MetaMask is not installed. Please install MetaMask extension.''))
      else
        let w' = w\<lparr>requests := requests w @ [eth_requestAccounts]\<rparr> in
        (w',
         case request (the (ethereum w)) eth_requestAccounts of
           Pending \<Rightarrow> Pending
         | Rejected e \<Rightarrow> Rejected (rethrow ''Failed to connect wallet: '' e)
         | Resolved accounts \<Rightarrow>
             if falsy accounts \<or> length (elements accounts) = 0 then
               Rejected (rethrow ''Failed to connect wallet: ''
                 (JSError ''No accounts found. Please connect MetaMask.''))
             else Resolved (elements accounts ! 0)))"

section \<open>Wallet bridge: address formatting\<close>

text \<open>
  \<open>String.prototype.substring(start, end)\<close> on indices that are not negative: both are
  clamped to the length and swapped when out of order. With one argument, \<open>end\<close> is the
  length.
\<close>

definition substring :: "string \<Rightarrow> nat \<Rightarrow> nat \<Rightarrow> string" where
  "substring s start end =
     (let finalStart = min start (length s);
          finalEnd = min end (length s);
          from = min finalStart finalEnd;
          to = max finalStart finalEnd
      in take (to - from) (drop from s))"

definition substring_from :: "string \<Rightarrow> nat \<Rightarrow> string" where
  "substring_from s start = substring s start (length s)"

text \<open>
  \<open>formatAddress\<close>. \<open>!address\<close> holds of the empty string only; \<open>address.length - 4\<close>
  is evaluated only when the length is at least 10.
\<close>

definition formatAddress :: "string \<Rightarrow> string" where
  "formatAddress address =
     (if address = [] \<or> length address < 10 then address
      else substring address 0 6 @ ''...'' @ substring_from address (length address - 4))"

section \<open>Session shell\<close>

text \<open>The two \<open>useState\<close> cells of \<open>App\<close>.\<close>

record session =
  isLoggedIn :: bool
  userAddress :: "string option"

definition initial_session :: session where
  "initial_session = \<lparr>isLoggedIn = False, userAddress = None\<rparr>"

text \<open>
  The mount effect: \<open>if (savedAddress)\<close> is false for \<open>null\<close> (no such key) and for
  the empty string.
\<close>

definition mount_effect :: "world \<times> session \<Rightarrow> world \<times> session" where
  "mount_effect ws =
     (let (w, s) = ws in
      case localStorage w ''userAddress'' of
        None \<Rightarrow> (w, s)
      | Some savedAddress \<Rightarrow>
          if savedAddress \<noteq> [] then (w, s\<lparr>userAddress := Some savedAddress, isLoggedIn := True\<rparr>)
          else (w, s))"

definition handleLoginSuccess :: "string \<Rightarrow> world \<times> session \<Rightarrow> world \<times> session" where
  "handleLoginSuccess address ws =
     (let (w, s) = ws in
      (w\<lparr>localStorage := (localStorage w)(''userAddress'' \<mapsto> address)\<rparr>,
       s\<lparr>userAddress := Some address, isLoggedIn := True\<rparr>))"

definition handleLogout :: "world \<times> session \<Rightarrow> world \<times> session" where
  "handleLogout ws =
     (let (w, s) = ws in
      (w\<lparr>localStorage := (localStorage w)(''userAddress'' := None)\<rparr>,
       s\<lparr>isLoggedIn := False, userAddress := None\<rparr>))"

text \<open>A fresh start of the application in a world: both cells initial, then the mount effect.\<close>

definition startup :: "world \<Rightarrow> world \<times> session" where
  "startup w = mount_effect (w, initial_session)"

text \<open>
  What can happen to the shell after it has started, one event at a time: the mount
  effect runs, the login page reports an address, or the user logs out. \<open>run\<close> starts
  in a world with both cells initial and lets the events happen in order.
\<close>

datatype event = Mount | Login string | Logout

fun step :: "world \<times> session \<Rightarrow> event \<Rightarrow> world \<times> session" where
  "step ws Mount = mount_effect ws"
| "step ws (Login address) = handleLoginSuccess address ws"
| "step ws Logout = handleLogout ws"

definition run :: "world \<Rightarrow> event list \<Rightarrow> world \<times> session" where
  "run w events = foldl step (w, initial_session) events"

section \<open>Wallet bridge: native balance\<close>

text \<open>\<open>bigint.toString()\<close>: the decimal digits of a number, without leading zeros.\<close>

definition digit :: "nat \<Rightarrow> char" where
  "digit d = ''0123456789'' ! d"

fun dec :: "nat \<Rightarrow> string" where
  "dec n = (if n < 10 then [digit n] else dec (n div 10) @ [digit (n mod 10)])"

declare dec.simps [simp del]

definition zero_pad :: "nat \<Rightarrow> string \<Rightarrow> string" where
  "zero_pad k s = replicate (k - length s) (CHR ''0'') @ s"

definition strip_trailing_zeros :: "string \<Rightarrow> string" where
  "strip_trailing_zeros s =
     (case dropWhile (\<lambda>c. c = CHR ''0'') (rev s) of [] \<Rightarrow> ''0'' | c # cs \<Rightarrow> rev (c # cs))"

text \<open>
  Modelled from the spec: \<open>formatEther\<close> is a function of the ethers library, which is
  not part of the sources. The spec says that the balance in the smallest unit is
  converted "to the human-readable unit using a fixed 18-decimal exponent" and returned
  as a string, and that \<open>1000000000000000000\<close> gives \<open>"1.0"\<close>. The model is the decimal
  expansion of \<open>wei / 10^18\<close>, which is finite and exact: the whole part, a point, and the
  18 fractional digits without their trailing zeros, of which at least one digit stays.
\<close>

definition formatEther :: "nat \<Rightarrow> string" where
  "formatEther wei =
     dec (wei div 10 ^ 18) @ ''.'' @ strip_trailing_zeros (zero_pad 18 (dec (wei mod 10 ^ 18)))"

definition getBalance :: "world \<Rightarrow> string \<Rightarrow> string outcome" where
  "getBalance w address =
     (if \<not> checkMetaMask w then Rejected (JSError ''MetaMask is not installed.'')
      else
        case provider_getBalance w address of
          Pending \<Rightarrow> Pending
        | Rejected e \<Rightarrow> Rejected (rethrow ''Failed to fetch balance: '' e)
        | Resolved balance \<Rightarrow> Resolved (formatEther balance))"

section \<open>Wallet bridge: token balance\<close>

text \<open>
  \<open>getUSDCBalance\<close> leaves the integers: \<open>Number(balance) / 1_000_000\<close> is arithmetic on
  IEEE 754 double-precision numbers, and \<open>toFixed(2)\<close> prints one. A finite double is
  the rational number it denotes, so a Number is a \<^typ>\<open>rat\<close> here, and each operation
  is the exact operation followed by rounding to the nearest double, ties to the even
  significand. Only Numbers that are not negative occur, and none
  reaches \<open>2^1024\<close>, where a double overflows: the balance is a \<open>uint256\<close>.
\<close>

text \<open>The integer nearest to \<open>y\<close>, the even one of two.\<close>

definition round_half_even :: "rat \<Rightarrow> int" where
  "round_half_even y =
     (let f = \<lfloor>y\<rfloor>; r = y - of_int f
      in if r < 1 / 2 then f else if 1 / 2 < r then f + 1 else if even f then f else f + 1)"

text \<open>The binary exponent of a positive \<open>q\<close>: the \<open>e\<close> with \<open>2^e \<le> q < 2^(e+1)\<close>.\<close>

definition ilog2 :: "rat \<Rightarrow> int" where
  "ilog2 q = (if 1 \<le> q then bitlen \<lfloor>q\<rfloor> - 1 else - bitlen (\<lceil>1 / q\<rceil> - 1))"

text \<open>
  Rounding to a double: 53 significant bits, that is a multiple of \<open>2^(e - 52)\<close> where
  \<open>e\<close> is the binary exponent, which does not go below \<open>-1022\<close> (the subnormal numbers).
\<close>

definition to_double :: "rat \<Rightarrow> rat" where
  "to_double q =
     (if q = 0 then 0
      else let e = max (ilog2 q) (- 1022) - 52
           in of_int (round_half_even (q / 2 powi e)) * 2 powi e)"

text \<open>\<open>Number(balance)\<close> on a \<open>bigint\<close> that is not negative, and \<open>x / y\<close> on Numbers.\<close>

definition Number :: "nat \<Rightarrow> rat" where
  "Number b = to_double (of_nat b)"

definition number_div :: "rat \<Rightarrow> rat \<Rightarrow> rat" where
  "number_div x y = to_double (x / y)"

text \<open>
  \<open>Number::toString\<close> for a Number from \<open>10^21\<close> on, which is all that \<open>toFixed\<close> asks
  of it. The digits are the shortest decimal \<open>s \<times> 10^p\<close> that rounds to \<open>x\<close>, the one
  nearest to \<open>x\<close> among those of that length; \<open>shortest_decimal x N k\<close> looks for it
  with \<open>k\<close>, \<open>k + 1\<close>, ... digits, where \<open>N\<close> is the number of digits of the integer part
  of \<open>x\<close>. Seventeen digits always round back. Such a Number is printed in exponent
  notation: one digit, the other digits after a point if there are any, and the decimal
  exponent.
\<close>

function shortest_decimal :: "rat \<Rightarrow> nat \<Rightarrow> nat \<Rightarrow> nat \<times> nat" where
  "shortest_decimal x N k =
     (let p = N - k;
          lo = nat \<lfloor>x / 10 ^ p\<rfloor>;
          hi = lo + 1;
          lo_ok = (to_double (of_nat lo * 10 ^ p) = x);
          hi_ok = (to_double (of_nat hi * 10 ^ p) = x);
          lo_near = (x - of_nat lo * 10 ^ p < of_nat hi * 10 ^ p - x \<or>
                     x - of_nat lo * 10 ^ p = of_nat hi * 10 ^ p - x \<and> even lo)
      in if lo_ok \<and> (\<not> hi_ok \<or> lo_near) then (lo, p)
         else if hi_ok then (hi, p)
         else if 17 \<le> k then (if lo_near then (lo, p) else (hi, p))
         else shortest_decimal x N (k + 1))"
  by pat_completeness auto
termination
  by (relation "measure (\<lambda>(x, N, k). 17 - k)") auto

declare shortest_decimal.simps [simp del]

definition Number_toString_large :: "rat \<Rightarrow> string" where
  "Number_toString_large x =
     (let N = length (dec (nat \<lfloor>x\<rfloor>));
          (s, p) = shortest_decimal x N 1;
          n = length (dec s) + p;
          d = rev (dropWhile (\<lambda>c. c = CHR ''0'') (rev (dec s)))
      in if length d = 1 then d @ ''e+'' @ dec (n - 1)
         else take 1 d @ ''.'' @ drop 1 d @ ''e+'' @ dec (n - 1))"

text \<open>
  \<open>Number.prototype.toFixed(f)\<close> on a Number that is not negative. From \<open>10^21\<close> on the
  result is that of \<open>toString\<close>. Below, \<open>n\<close> is the integer for which \<open>n / 10^f\<close> is
  nearest to \<open>x\<close>, the larger of two; its digits are padded with zeros on the left to
  \<open>f + 1\<close> digits and the point is put before the last \<open>f\<close>.
\<close>

definition toFixed :: "rat \<Rightarrow> nat \<Rightarrow> string" where
  "toFixed x f =
     (if 10 ^ 21 \<le> x then Number_toString_large x
      else
        let n = nat \<lfloor>x * 10 ^ f + 1 / 2\<rfloor>;
            m = dec n;
            m = (if f \<noteq> 0 \<and> length m \<le> f then zero_pad (f + 1) m else m);
            k = length m
        in if f \<noteq> 0 then take (k - f) m @ ''.'' @ drop (k - f) m else m)"

definition USDC_ADDRESS :: string where
  "USDC_ADDRESS = ''0xA0b86991c6218b36c1d19D4a2e9Eb0cE3606eB48''"

definition getUSDCBalance :: "world \<Rightarrow> string \<Rightarrow> string outcome" where
  "getUSDCBalance w address =
     (if \<not> checkMetaMask w then Rejected (JSError ''MetaMask is not installed.'')
      else
        case contract_balanceOf w USDC_ADDRESS address of
          Pending \<Rightarrow> Pending
        | Rejected e \<Rightarrow> Rejected (rethrow ''Failed to fetch USDC balance: '' e)
        | Resolved balance \<Rightarrow>
            let usdcBalance = number_div (Number (unat balance)) 1000000
            in Resolved (toFixed usdcBalance 2))"

section \<open>Fixtures\<close>

text \<open>
  A provider whose \<open>request\<close> settles the same way whatever it is asked, and a world
  around it with an empty store, an empty log and a chain on which every account holds
  the given native and token balance.
\<close>

definition fake_provider :: "jsval outcome \<Rightarrow> EthereumProvider" where
  "fake_provider reply = \<lparr>isMetaMask = Some True, request = (\<lambda>args. reply)\<rparr>"

definition fake_world :: "EthereumProvider option \<Rightarrow> nat \<Rightarrow> 256 word \<Rightarrow> world" where
  "fake_world p wei raw =
     \<lparr>ethereum = p, requests = [], localStorage = Map.empty,
      provider_getBalance = (\<lambda>address. Resolved wei),
      contract_balanceOf = (\<lambda>token account. Resolved raw)\<rparr>"

section \<open>Properties of connect\<close>

text \<open>
  C1. In every world without a wallet provider object (\<open>checkMetaMask\<close> is false),
  \<open>connectWallet\<close> is rejected with the error "MetaMask is not installed. Please install
  MetaMask extension.", and the world it leaves is the world it found: nothing was added to
  the log of \<open>request\<close> invocations.
\<close>

theorem connectWallet_no_provider:
  "\<not> checkMetaMask w \<Longrightarrow>
     connectWallet w =
       (w, Rejected (JSError ''MetaMask is not installed. Please install MetaMask extension.'')) \<and>
     requests (fst (connectWallet w)) = requests w"
  by (simp add: connectWallet_def)

theorem connectWallet_no_provider_witness:
  "\<not> checkMetaMask (fake_world None 0 0) \<and>
   connectWallet (fake_world None 0 0) =
     (fake_world None 0 0,
      Rejected (JSError ''MetaMask is not installed. Please install MetaMask extension.'')) \<and>
   requests (fst (connectWallet (fake_world None 0 0))) = requests (fake_world None 0 0)"
  using connectWallet_no_provider [of "fake_world None 0 0"]
  by (simp add: checkMetaMask_def fake_world_def)

text \<open>
  C2. Whenever the provider resolves the \<open>eth_requestAccounts\<close> request with a non-empty
  list of accounts, \<open>connectWallet\<close> resolves with the first element of that list, after
  exactly one invocation of \<open>request\<close>.
\<close>

theorem connectWallet_first_account:
  assumes "ethereum w = Some p"
    and "request p eth_requestAccounts = Resolved (JStrings (a # rest))"
  shows "snd (connectWallet w) = Resolved a \<and>
         requests (fst (connectWallet w)) = requests w @ [eth_requestAccounts]"
  using assms by (simp add: connectWallet_def checkMetaMask_def Let_def)

theorem connectWallet_first_account_witness:
  "ethereum (fake_world (Some (fake_provider (Resolved (JStrings [''0xABC...'', ''0xDEF...''])))) 0 0)
     = Some (fake_provider (Resolved (JStrings [''0xABC...'', ''0xDEF...'']))) \<and>
   request (fake_provider (Resolved (JStrings [''0xABC...'', ''0xDEF...'']))) eth_requestAccounts
     = Resolved (JStrings [''0xABC...'', ''0xDEF...'']) \<and>
   snd (connectWallet
          (fake_world (Some (fake_provider (Resolved (JStrings [''0xABC...'', ''0xDEF...''])))) 0 0))
     = Resolved ''0xABC...''"
  using connectWallet_first_account
    [of "fake_world (Some (fake_provider (Resolved (JStrings [''0xABC...'', ''0xDEF...''])))) 0 0"
        "fake_provider (Resolved (JStrings [''0xABC...'', ''0xDEF...'']))"
        "''0xABC...''" "[''0xDEF...'']"]
  by (simp add: fake_world_def fake_provider_def)

text \<open>
  C3, as the spec states it: an empty account list fails with an error of a kind of its
  own, distinct from the error that wraps a fault raised by the provider. It does not:
  the \<open>throw\<close> for the empty list is inside the \<open>try\<close>, so its error goes through the same
  \<open>catch\<close> block, and a provider that raises an \<open>Error\<close> with the message "No accounts
  found. Please connect MetaMask." leaves the caller with the very same rejection.
\<close>

theorem connectWallet_no_accounts_not_distinct:
  "snd (connectWallet (fake_world (Some (fake_provider (Resolved (JStrings [])))) 0 0)) =
     Rejected (JSError ''Failed to connect wallet: No accounts found. Please connect MetaMask.'') \<and>
   snd (connectWallet
          (fake_world
             (Some (fake_provider (Rejected (JSError ''No accounts found. Please connect MetaMask.''))))
             0 0)) =
     Rejected (JSError ''Failed to connect wallet: No accounts found. Please connect MetaMask.'')"
  by (simp add: connectWallet_def checkMetaMask_def fake_world_def fake_provider_def Let_def)

text \<open>
  C3, amended. With a provider present: when the request resolves with an empty list,
  \<open>connectWallet\<close> is rejected with an \<open>Error\<close> whose message is "Failed to connect
  wallet: No accounts found. Please connect MetaMask."; when the provider raises an
  \<open>Error\<close> with message \<open>m\<close>, it is rejected with an \<open>Error\<close> whose message is "Failed to
  connect wallet: " followed by \<open>m\<close>. The first is the second at the message of the
  no-accounts error: one wrapper, told apart by the message only.
\<close>

theorem connectWallet_failures:
  assumes "ethereum w = Some p"
  shows "(request p eth_requestAccounts = Resolved (JStrings []) \<longrightarrow>
            snd (connectWallet w) =
              Rejected (JSError
                ''Failed to connect wallet: No accounts found. Please connect MetaMask.'')) \<and>
         (request p eth_requestAccounts = Rejected (JSError m) \<longrightarrow>
            snd (connectWallet w) = Rejected (JSError (''Failed to connect wallet: '' @ m)))"
  using assms by (simp add: connectWallet_def checkMetaMask_def Let_def)

theorem connectWallet_failures_witness:
  "request (fake_provider (Resolved (JStrings []))) eth_requestAccounts = Resolved (JStrings []) \<and>
   snd (connectWallet (fake_world (Some (fake_provider (Resolved (JStrings [])))) 0 0)) =
     Rejected (JSError ''Failed to connect wallet: No accounts found. Please connect MetaMask.'') \<and>
   request (fake_provider (Rejected (JSError ''User rejected the request.''))) eth_requestAccounts
     = Rejected (JSError ''User rejected the request.'') \<and>
   snd (connectWallet
          (fake_world (Some (fake_provider (Rejected (JSError ''User rejected the request.'')))) 0 0)) =
     Rejected (JSError ''Failed to connect wallet: User rejected the request.'')"
  using
    connectWallet_failures
      [of "fake_world (Some (fake_provider (Resolved (JStrings [])))) 0 0"
          "fake_provider (Resolved (JStrings []))" "[]"]
    connectWallet_failures
      [of "fake_world (Some (fake_provider (Rejected (JSError ''User rejected the request.'')))) 0 0"
          "fake_provider (Rejected (JSError ''User rejected the request.''))"
          "''User rejected the request.''"]
  by (simp add: fake_world_def fake_provider_def)

section \<open>Properties of address formatting\<close>

lemma formatAddress_short: "length address < 10 \<Longrightarrow> formatAddress address = address"
  by (simp add: formatAddress_def)

lemma formatAddress_long:
  "10 \<le> length address \<Longrightarrow>
     formatAddress address = take 6 address @ ''...'' @ drop (length address - 4) address"
  by (auto simp add: formatAddress_def substring_def substring_from_def Let_def min_def max_def)

lemma length_formatAddress_long: "10 \<le> length address \<Longrightarrow> length (formatAddress address) = 13"
  by (simp add: formatAddress_long)

text \<open>
  C5. \<open>formatAddress\<close> returns a string of fewer than 10 characters unchanged, and turns
  any other string into its first 6 characters, three dots and its last 4 characters,
  which are 13 characters.
\<close>

theorem formatAddress_cases:
  "(length address < 10 \<longrightarrow> formatAddress address = address) \<and>
   (10 \<le> length address \<longrightarrow>
      formatAddress address = take 6 address @ ''...'' @ drop (length address - 4) address \<and>
      length (formatAddress address) = 13)"
  by (simp add: formatAddress_short formatAddress_long length_formatAddress_long)

theorem formatAddress_cases_witness:
  "length ''0x1234'' < 10 \<and> formatAddress ''0x1234'' = ''0x1234'' \<and>
   10 \<le> length ''0x1234567890abcdef1234567890abcdef12345678'' \<and>
   formatAddress ''0x1234567890abcdef1234567890abcdef12345678'' = ''0x1234...5678'' \<and>
   length (formatAddress ''0x1234567890abcdef1234567890abcdef12345678'') = 13"
  using formatAddress_cases [of "''0x1234''"]
    formatAddress_cases [of "''0x1234567890abcdef1234567890abcdef12345678''"]
  by simp

text \<open>
  C10. \<open>formatAddress\<close> is idempotent on every string: formatting a formatted address
  changes nothing.
\<close>

theorem formatAddress_idempotent: "formatAddress (formatAddress s) = formatAddress s"
proof (cases "length s < 10")
  case True
  then show ?thesis by (simp add: formatAddress_short)
next
  case False
  then have long: "10 \<le> length s" by simp
  have r: "formatAddress s = take 6 s @ ''...'' @ drop (length s - 4) s"
    using long by (rule formatAddress_long)
  have l: "length (formatAddress s) = 13"
    using long by (rule length_formatAddress_long)
  have "formatAddress (formatAddress s)
      = take 6 (formatAddress s) @ ''...'' @ drop (length (formatAddress s) - 4) (formatAddress s)"
    using l by (simp add: formatAddress_long)
  also have "\<dots> = formatAddress s"
    using long by (simp add: l) (simp add: r)
  finally show ?thesis .
qed

section \<open>Properties of the native balance\<close>

lemma formatEther_one: "formatEther 1000000000000000000 = ''1.0''"
  by (simp add: formatEther_def dec.simps digit_def zero_pad_def strip_trailing_zeros_def)

text \<open>
  C6. With a provider present whose balance query resolves with \<open>1000000000000000000\<close>
  wei, \<open>getBalance\<close> resolves with the string "1.0".
\<close>

theorem getBalance_one_ether:
  assumes "checkMetaMask w"
    and "provider_getBalance w address = Resolved 1000000000000000000"
  shows "getBalance w address = Resolved ''1.0''"
  using assms by (simp add: getBalance_def formatEther_one)

theorem getBalance_one_ether_witness:
  "checkMetaMask (fake_world (Some (fake_provider Pending)) 1000000000000000000 0) \<and>
   provider_getBalance (fake_world (Some (fake_provider Pending)) 1000000000000000000 0)
     ''0x1234567890abcdef1234567890abcdef12345678'' = Resolved 1000000000000000000 \<and>
   getBalance (fake_world (Some (fake_provider Pending)) 1000000000000000000 0)
     ''0x1234567890abcdef1234567890abcdef12345678'' = Resolved ''1.0''"
  using getBalance_one_ether
    [of "fake_world (Some (fake_provider Pending)) 1000000000000000000 0"
        "''0x1234567890abcdef1234567890abcdef12345678''"]
  by (simp add: checkMetaMask_def fake_world_def)

section \<open>Properties of the token balance\<close>

text \<open>Rounding to a double: integers below \<open>2^53\<close> are kept, and the relative error is at most \<open>2^-53\<close>.\<close>

lemma round_half_even_of_int: "round_half_even (of_int z) = z"
  by (simp add: round_half_even_def)

lemma round_half_even_near: "\<bar>of_int (round_half_even y) - y\<bar> \<le> 1 / 2"
proof -
  have "of_int \<lfloor>y\<rfloor> \<le> y" and "y < of_int \<lfloor>y\<rfloor> + 1"
    by linarith+
  then show ?thesis
    by (auto simp add: round_half_even_def Let_def)
qed

lemma bitlen_pos: "0 < x \<Longrightarrow> 1 \<le> bitlen x"
  by (subst compute_bitlen) (simp add: bitlen_nonneg)

lemma ilog2_lower:
  assumes "0 < q"
  shows "2 powi ilog2 q \<le> q"
proof (cases "1 \<le> q")
  case True
  then have f: "0 < \<lfloor>q\<rfloor>" by simp
  have "(2::int) ^ nat (bitlen \<lfloor>q\<rfloor> - 1) \<le> \<lfloor>q\<rfloor>"
    using bitlen_bounds [OF f] by simp
  then have "of_int ((2::int) ^ nat (bitlen \<lfloor>q\<rfloor> - 1)) \<le> (of_int \<lfloor>q\<rfloor> :: rat)"
    by (simp only: of_int_le_iff)
  then have "(2::rat) ^ nat (bitlen \<lfloor>q\<rfloor> - 1) \<le> of_int \<lfloor>q\<rfloor>"
    by simp
  also have "\<dots> \<le> q" by simp
  finally have "(2::rat) ^ nat (bitlen \<lfloor>q\<rfloor> - 1) \<le> q" .
  moreover have "0 \<le> bitlen \<lfloor>q\<rfloor> - 1"
    using bitlen_pos [OF f] by simp
  ultimately show ?thesis
    using True by (simp add: ilog2_def power_int_def)
next
  case False
  define c where "c = \<lceil>1 / q\<rceil>"
  define k where "k = bitlen (c - 1)"
  have q1: "q < 1" using False by simp
  have "1 < 1 / q" using assms q1 by (simp add: field_simps)
  then have c2: "2 \<le> c" unfolding c_def by (simp add: less_ceiling_iff)
  then have pos: "0 < c - 1" by simp
  have "c - 1 < 2 ^ nat k"
    using bitlen_bounds [OF pos] by (simp add: k_def)
  then have "c \<le> 2 ^ nat k" by simp
  then have "(of_int c :: rat) \<le> of_int (2 ^ nat k)"
    by (simp only: of_int_le_iff)
  then have "(of_int c :: rat) \<le> 2 ^ nat k" by simp
  moreover have "1 / q \<le> of_int c" unfolding c_def by simp
  ultimately have "1 / q \<le> 2 ^ nat k" by linarith
  then have "1 / 2 ^ nat k \<le> q"
    using assms by (simp add: field_simps)
  moreover have "0 \<le> k" unfolding k_def by (rule bitlen_nonneg)
  moreover have "1 \<le> k" unfolding k_def using pos by (rule bitlen_pos)
  ultimately show ?thesis
    using False by (simp add: ilog2_def c_def [symmetric] k_def [symmetric] power_int_def
        inverse_eq_divide power_one_over)
qed

lemma ilog2_upper:
  assumes "0 < q"
  shows "q < 2 powi (ilog2 q + 1)"
proof (cases "1 \<le> q")
  case True
  then have f: "0 < \<lfloor>q\<rfloor>" by simp
  have "\<lfloor>q\<rfloor> < 2 ^ nat (bitlen \<lfloor>q\<rfloor>)"
    using bitlen_bounds [OF f] by simp
  then have "\<lfloor>q\<rfloor> + 1 \<le> 2 ^ nat (bitlen \<lfloor>q\<rfloor>)" by simp
  then have "(of_int (\<lfloor>q\<rfloor> + 1) :: rat) \<le> of_int (2 ^ nat (bitlen \<lfloor>q\<rfloor>))"
    by (simp only: of_int_le_iff)
  then have "(of_int \<lfloor>q\<rfloor> + 1 :: rat) \<le> 2 ^ nat (bitlen \<lfloor>q\<rfloor>)" by simp
  moreover have "q < of_int \<lfloor>q\<rfloor> + 1" by linarith
  ultimately have "q < 2 ^ nat (bitlen \<lfloor>q\<rfloor>)" by linarith
  moreover have "0 \<le> bitlen \<lfloor>q\<rfloor>" by (rule bitlen_nonneg)
  ultimately show ?thesis
    using True by (simp add: ilog2_def power_int_def)
next
  case False
  define c where "c = \<lceil>1 / q\<rceil>"
  define k where "k = bitlen (c - 1)"
  have q1: "q < 1" using False by simp
  have "1 < 1 / q" using assms q1 by (simp add: field_simps)
  then have c2: "2 \<le> c" unfolding c_def by (simp add: less_ceiling_iff)
  then have pos: "0 < c - 1" by simp
  have k1: "1 \<le> k" unfolding k_def using pos by (rule bitlen_pos)
  have "2 ^ nat (k - 1) \<le> c - 1"
    using bitlen_bounds [OF pos] by (simp add: k_def)
  then have "(of_int (2 ^ nat (k - 1)) :: rat) \<le> of_int (c - 1)"
    by (simp only: of_int_le_iff)
  then have "(2 :: rat) ^ nat (k - 1) \<le> of_int c - 1" by simp
  moreover have "of_int c - 1 < 1 / q" unfolding c_def using ceiling_correct [of "1 / q"] by simp
  ultimately have "2 ^ nat (k - 1) < 1 / q" by linarith
  then have "q < 1 / 2 ^ nat (k - 1)"
    using assms by (simp add: field_simps)
  moreover have "2 powi (- k + 1) = (1 / 2 ^ nat (k - 1) :: rat)"
    using k1 by (simp add: power_int_def inverse_eq_divide power_one_over)
  ultimately show ?thesis
    using False by (simp add: ilog2_def c_def [symmetric] k_def [symmetric])
qed

lemma to_double_error:
  assumes "0 < q" and "- 1022 \<le> ilog2 q"
  shows "\<bar>to_double q - q\<bar> \<le> q / 2 ^ 53"
proof -
  define u where "u = (2::rat) powi (ilog2 q - 52)"
  have upos: "0 < u" unfolding u_def by simp
  have td: "to_double q = of_int (round_half_even (q / u)) * u"
    using assms by (simp add: to_double_def Let_def u_def max_def)
  have "to_double q - q = (of_int (round_half_even (q / u)) - q / u) * u"
    using upos by (simp add: td field_simps)
  then have "\<bar>to_double q - q\<bar> = \<bar>of_int (round_half_even (q / u)) - q / u\<bar> * u"
    using upos by (simp add: abs_mult)
  also have "\<dots> \<le> 1 / 2 * u"
    using upos round_half_even_near [of "q / u"] by (intro mult_right_mono) simp_all
  also have "u = 2 powi ilog2 q / 2 ^ 52"
    unfolding u_def by (simp add: power_int_diff)
  also have "1 / 2 * (2 powi ilog2 q / 2 ^ 52) = 2 powi ilog2 q / (2 ^ 53 :: rat)"
    by simp
  also have "\<dots> \<le> q / 2 ^ 53"
    using ilog2_lower [OF assms(1)] by (simp add: divide_right_mono)
  finally show ?thesis .
qed

lemma to_double_of_nat_exact:
  assumes "b < 2 ^ 53"
  shows "to_double (of_nat b) = of_nat b"
proof (cases "b = 0")
  case True
  then show ?thesis by (simp add: to_double_def)
next
  case False
  define q where "q = (of_nat b :: rat)"
  define E where "E = ilog2 q"
  have q1: "1 \<le> q" using False by (simp add: q_def)
  then have qpos: "0 < q" by simp
  have f: "0 < \<lfloor>q\<rfloor>" using q1 by simp
  have E0: "0 \<le> E"
    using q1 bitlen_pos [OF f] by (simp add: E_def ilog2_def)
  have "q < 2 ^ 53"
    using assms unfolding q_def by (metis of_nat_less_iff of_nat_numeral of_nat_power)
  with ilog2_lower [OF qpos] have lt: "2 powi E < (2::rat) powi 53"
    by (simp add: E_def)
  have E52: "E \<le> 52"
  proof (rule ccontr)
    assume "\<not> E \<le> 52"
    then have "53 \<le> E" by simp
    then have "(2::rat) powi 53 \<le> 2 powi E"
      by (intro power_int_increasing) simp_all
    with lt show False by simp
  qed
  define j where "j = nat (52 - E)"
  have u: "(2::rat) powi (E - 52) = 1 / 2 ^ j"
    using E52 E0 by (simp add: power_int_def j_def inverse_eq_divide power_one_over)
  have "q / (1 / 2 ^ j) = of_int (int b * 2 ^ j)"
    by (simp add: q_def)
  then have r: "round_half_even (q / (1 / 2 ^ j)) = int b * 2 ^ j"
    by (simp only: round_half_even_of_int)
  have "to_double q = of_int (round_half_even (q / (2 powi (E - 52)))) * 2 powi (E - 52)"
    using qpos E0 by (simp add: to_double_def Let_def max_def E_def [symmetric])
  also have "\<dots> = of_int (int b * 2 ^ j) * (1 / 2 ^ j)"
    by (simp only: u r)
  also have "\<dots> = q" by (simp add: q_def)
  finally show ?thesis by (simp add: q_def)
qed

text \<open>The digits that \<open>toFixed(2)\<close> prints below \<open>10^21\<close>.\<close>

lemma dec_lt10: "n < 10 \<Longrightarrow> dec n = [digit n]"
  by (subst dec.simps) simp

lemma dec_ge10: "10 \<le> n \<Longrightarrow> dec n = dec (n div 10) @ [digit (n mod 10)]"
  by (subst dec.simps) simp

lemma dec_ge100:
  assumes "100 \<le> n"
  shows "dec n = dec (n div 100) @ [digit (n div 10 mod 10), digit (n mod 10)]"
proof -
  have "10 \<le> n div 10" using assms by simp
  then have "dec (n div 10) = dec (n div 10 div 10) @ [digit (n div 10 mod 10)]"
    by (rule dec_ge10)
  moreover have "n div 10 div 10 = n div 100" by (simp add: div_mult2_eq [symmetric])
  moreover have "dec n = dec (n div 10) @ [digit (n mod 10)]"
    using assms by (intro dec_ge10) simp
  ultimately show ?thesis by simp
qed

lemma length_dec_pos: "0 < length (dec n)"
  by (subst dec.simps) simp

lemma digit_0: "digit 0 = CHR ''0''"
  by (simp add: digit_def)

lemma toFixed_2:
  assumes "x < 10 ^ 21"
  shows "toFixed x 2 =
    dec (nat \<lfloor>x * 100 + 1 / 2\<rfloor> div 100) @ ''.'' @
      [digit (nat \<lfloor>x * 100 + 1 / 2\<rfloor> div 10 mod 10), digit (nat \<lfloor>x * 100 + 1 / 2\<rfloor> mod 10)]"
proof -
  define n where "n = nat \<lfloor>x * 100 + 1 / 2\<rfloor>"
  consider "n < 10" | "10 \<le> n" "n < 100" | "100 \<le> n" by linarith
  then have fixed: "(let m = dec n;
                  m = (if length m \<le> 2 then zero_pad 3 m else m);
                  k = length m
              in take (k - 2) m @ ''.'' @ drop (k - 2) m) =
             dec (n div 100) @ ''.'' @ [digit (n div 10 mod 10), digit (n mod 10)]"
  proof cases
    case 1
    then show ?thesis
      by (simp add: dec_lt10 zero_pad_def digit_0 numeral_3_eq_3)
  next
    case 2
    then have "n div 10 < 10" by simp
    with 2 show ?thesis
      by (simp add: dec_ge10 dec_lt10 zero_pad_def digit_0)
  next
    case 3
    have "0 < length (dec (n div 100))" by (rule length_dec_pos)
    with 3 show ?thesis
      by (simp add: dec_ge100)
  qed
  have "toFixed x 2 =
          (let m = dec n;
               m = (if length m \<le> 2 then zero_pad 3 m else m);
               k = length m
           in take (k - 2) m @ ''.'' @ drop (k - 2) m)"
    using assms by (simp add: toFixed_def n_def Let_def)
  also note fixed
  finally show ?thesis unfolding n_def .
qed

lemma usdc_quotient_near:
  assumes "b < 2 ^ 53"
  shows "\<bar>number_div (Number b) 1000000 - of_nat b / 10 ^ 6\<bar> < 1 / 10 ^ 6"
proof (cases "b = 0")
  case True
  then show ?thesis by (simp add: number_div_def Number_def to_double_def)
next
  case False
  define q where "q = (of_nat b :: rat) / 10 ^ 6"
  have qpos: "0 < q" using False by (simp add: q_def)
  have "1 \<le> (of_nat b :: rat)" using False by simp
  then have qlow: "1 / 10 ^ 6 \<le> q" by (simp add: q_def divide_right_mono)
  have "(of_nat b :: rat) < 2 ^ 53"
    using assms by (metis of_nat_less_iff of_nat_numeral of_nat_power)
  then have qup: "q < 2 ^ 53 / 10 ^ 6" by (simp add: q_def divide_strict_right_mono)
  have expo: "- 20 \<le> ilog2 q"
  proof (rule ccontr)
    assume "\<not> - 20 \<le> ilog2 q"
    then have "ilog2 q + 1 \<le> - 20" by simp
    then have "(2::rat) powi (ilog2 q + 1) \<le> 2 powi (- 20)"
      by (intro power_int_increasing) simp_all
    with ilog2_upper [OF qpos] have "q < 2 powi (- 20)" by simp
    with qlow show False by simp
  qed
  then have "- 1022 \<le> ilog2 q" by simp
  from to_double_error [OF qpos this] have "\<bar>to_double q - q\<bar> \<le> q / 2 ^ 53" .
  also have "\<dots> < 1 / 10 ^ 6" using qup by simp
  finally have "\<bar>to_double q - q\<bar> < 1 / 10 ^ 6" .
  moreover have "number_div (Number b) 1000000 = to_double q"
    by (simp add: number_div_def Number_def to_double_of_nat_exact [OF assms] q_def)
  ultimately show ?thesis by (simp add: q_def)
qed

lemma toFixed_2_near:
  fixes x :: rat and b :: nat
  assumes near: "\<bar>x - of_nat b / 10 ^ 6\<bar> < 1 / 10 ^ 6"
  defines "n \<equiv> nat \<lfloor>x * 100 + 1 / 2\<rfloor>"
  shows "\<bar>of_nat n / 100 - of_nat b / 10 ^ 6\<bar> \<le> (1 / 200 :: rat)"
proof -
  define z where "z = \<lfloor>x * 100 + 1 / 2\<rfloor>"
  define c where "c = (of_nat b :: rat) / 1000000"
  have b: "(of_nat b :: rat) = c * 1000000" by (simp add: c_def)
  have c0: "0 \<le> c" by (simp add: c_def)
  have z_le: "of_int z \<le> x * 100 + 1 / 2" and z_gt: "x * 100 + 1 / 2 < of_int z + 1"
    unfolding z_def by linarith+
  have "\<bar>x - c\<bar> < 1 / 1000000" using near by (simp add: c_def)
  then have x_lo: "c - 1 / 1000000 < x" and x_hi: "x < c + 1 / 1000000"
    by linarith+
  from x_lo z_gt c0 have "0 < of_int z + (1::rat)" by linarith
  then have "0 < z + 1" by (metis of_int_0_less_iff of_int_1 of_int_add)
  then have z0: "0 \<le> z" by simp
  then have n: "(of_nat n :: rat) = of_int z" by (simp add: n_def z_def)
  have "10000 * of_int z < c * 1000000 + 5001"
    using z_le x_hi by linarith
  then have "(of_int (10000 * z) :: rat) < of_int (int b + 5001)"
    by (simp add: b)
  then have "10000 * z < int b + 5001" by (simp only: of_int_less_iff)
  then have "10000 * z \<le> int b + 5000" by simp
  then have "(of_int (10000 * z) :: rat) \<le> of_int (int b + 5000)"
    by (simp only: of_int_le_iff)
  then have up: "10000 * of_int z \<le> c * 1000000 + 5000"
    by (simp add: b)
  have "c * 1000000 - 5001 < 10000 * of_int z"
    using z_gt x_lo by linarith
  then have "(of_int (int b - 5001) :: rat) < of_int (10000 * z)"
    by (simp add: b)
  then have "int b - 5001 < 10000 * z" by (simp only: of_int_less_iff)
  then have "int b - 5000 \<le> 10000 * z" by simp
  then have "(of_int (int b - 5000) :: rat) \<le> of_int (10000 * z)"
    by (simp only: of_int_le_iff)
  then have lo: "c * 1000000 - 5000 \<le> 10000 * of_int z"
    by (simp add: b)
  have "\<bar>of_int z / 100 - c\<bar> \<le> (1 / 200 :: rat)"
    using lo up by linarith
  then show ?thesis by (simp add: n c_def)
qed

text \<open>Evaluation of the model on literals.\<close>

lemma floor_rat_numeral_div: "\<lfloor>numeral a / numeral b :: rat\<rfloor> = numeral a div numeral b"
  using floor_divide_of_int_eq [of "numeral a" "numeral b", where ?'a = rat] by simp

lemma bitlen_numeral: "bitlen (numeral k) = bitlen (numeral k div 2) + 1"
  by (subst compute_bitlen) simp

lemma bitlen_1: "bitlen 1 = 1"
  by (subst compute_bitlen) simp

lemma dec_numeral:
  "dec (numeral k) =
     (if numeral k < (10::nat) then [digit (numeral k)]
      else dec (numeral k div 10) @ [digit (numeral k mod 10)])"
  by (rule dec.simps)

lemma dec_0: "dec 0 = ''0''"
  by (simp add: dec_lt10 digit_def)

lemma dec_1: "dec 1 = ''1''"
  by (simp add: dec_lt10 digit_def)

lemma dec_Suc_0: "dec (Suc 0) = ''1''"
  by (simp add: dec_lt10 digit_def)

lemmas eval_double = to_double_def ilog2_def bitlen_numeral bitlen_1 round_half_even_def
  floor_rat_numeral_div Let_def Number_def number_div_def

lemmas eval_dec = dec_numeral dec_0 dec_1 dec_Suc_0 digit_def zero_pad_def floor_rat_numeral_div

lemma quotient_1500000: "number_div (Number 1500000) 1000000 = 3 / 2"
  by (simp add: eval_double split del: if_split cong: let_weak_cong)

lemma toFixed_3_2: "toFixed (3 / 2) 2 = ''1.50''"
  by (simp add: toFixed_def eval_dec Let_def split del: if_split cong: let_weak_cong)

lemma quotient_large: "number_div (Number 10000000000000000500000) 1000000 = 10000000000000000"
  by (simp add: eval_double split del: if_split cong: let_weak_cong)

lemma toFixed_large: "toFixed 10000000000000000 2 = ''10000000000000000.00''"
  by (simp add: toFixed_def eval_dec Let_def split del: if_split cong: let_weak_cong)

text \<open>
  C4, as the spec states it: for every raw balance the result is the quotient by \<open>10^6\<close>
  with two fractional digits. The quotient is taken in double precision, so it is not:
  the raw balance \<open>10000000000000000500000\<close> is \<open>10000000000000000.50\<close> tokens, and
  \<open>Number\<close> rounds it to \<open>10^22\<close> before the division.
\<close>

theorem getUSDCBalance_large_balance_inexact:
  "getUSDCBalance (fake_world (Some (fake_provider Pending)) 0 10000000000000000500000)
     ''0x1234567890abcdef1234567890abcdef12345678'' = Resolved ''10000000000000000.00'' \<and>
   (of_nat (unat (10000000000000000500000 :: 256 word)) :: rat) / 10 ^ 6
     = 1000000000000000050 / 100"
  by (simp add: getUSDCBalance_def checkMetaMask_def fake_world_def quotient_large toFixed_large)

text \<open>
  From \<open>10^27\<close> raw units on, the quotient reaches \<open>10^21\<close> and \<open>toFixed\<close> prints it as
  \<open>toString\<close> does, in exponent notation.
\<close>

lemma quotient_1e27:
  "number_div (Number 1000000000000000000000000000) 1000000 = 1000000000000000000000"
  by (simp add: eval_double split del: if_split cong: let_weak_cong)

lemma shortest_decimal_1e21: "shortest_decimal 1000000000000000000000 22 (Suc 0) = (Suc 0, 21)"
  by (simp add: shortest_decimal.simps eval_double split del: if_split cong: let_weak_cong)

lemma toFixed_1e21: "toFixed 1000000000000000000000 2 = ''1e+21''"
  by (simp add: toFixed_def Number_toString_large_def eval_dec shortest_decimal_1e21
      numeral_2_eq_2 [symmetric] split del: if_split cong: let_weak_cong)

lemma getUSDCBalance_exponent_notation:
  "getUSDCBalance (fake_world (Some (fake_provider Pending)) 0 1000000000000000000000000000)
     ''0x1234567890abcdef1234567890abcdef12345678'' = Resolved ''1e+21''"
  by (simp add: getUSDCBalance_def checkMetaMask_def fake_world_def quotient_1e27 toFixed_1e21)

text \<open>
  C4, amended. For every raw balance below \<open>2^53\<close> that \<open>balanceOf\<close> resolves with,
  \<open>getUSDCBalance\<close> resolves with a decimal string with exactly two fractional digits:
  the digits of \<open>n div 100\<close>, a point and the two digits of \<open>n mod 100\<close>, for an \<open>n\<close>
  whose hundredths are within \<open>0.005\<close> of the balance divided by \<open>10^6\<close>, a nearest
  hundredth. The raw value \<open>1500000\<close> gives "1.50".
\<close>

theorem getUSDCBalance_nearest_hundredth:
  assumes "checkMetaMask w"
    and "contract_balanceOf w USDC_ADDRESS address = Resolved balance"
    and "unat balance < 2 ^ 53"
  shows "\<exists>n. \<bar>of_nat n / 100 - of_nat (unat balance) / 10 ^ 6\<bar> \<le> (1 / 200 :: rat) \<and>
              getUSDCBalance w address =
                Resolved (dec (n div 100) @ ''.'' @ [digit (n div 10 mod 10), digit (n mod 10)])"
proof -
  define x where "x = number_div (Number (unat balance)) 1000000"
  define n where "n = nat \<lfloor>x * 100 + 1 / 2\<rfloor>"
  define c where "c = (of_nat (unat balance) :: rat) / 1000000"
  have near: "\<bar>x - of_nat (unat balance) / 10 ^ 6\<bar> < 1 / 10 ^ 6"
    unfolding x_def using assms(3) by (rule usdc_quotient_near)
  then have "\<bar>x - c\<bar> < 1 / 1000000" by (simp add: c_def)
  moreover have "(of_nat (unat balance) :: rat) < 2 ^ 53"
    using assms(3) by (metis of_nat_less_iff of_nat_numeral of_nat_power)
  then have "c < 1000000000000000" by (simp add: c_def)
  ultimately have "x < 1000000000000000000000" by linarith
  then have "x < 10 ^ 21" by simp
  then have "toFixed x 2 =
      dec (n div 100) @ ''.'' @ [digit (n div 10 mod 10), digit (n mod 10)]"
    unfolding n_def by (rule toFixed_2)
  then have "getUSDCBalance w address =
      Resolved (dec (n div 100) @ ''.'' @ [digit (n div 10 mod 10), digit (n mod 10)])"
    using assms(1,2) by (simp add: getUSDCBalance_def x_def Let_def)
  moreover have "\<bar>of_nat n / 100 - of_nat (unat balance) / 10 ^ 6\<bar> \<le> (1 / 200 :: rat)"
    unfolding n_def using near by (rule toFixed_2_near)
  ultimately show ?thesis by blast
qed

theorem getUSDCBalance_nearest_hundredth_witness:
  "checkMetaMask (fake_world (Some (fake_provider Pending)) 0 1500000) \<and>
   contract_balanceOf (fake_world (Some (fake_provider Pending)) 0 1500000) USDC_ADDRESS
     ''0x1234567890abcdef1234567890abcdef12345678'' = Resolved 1500000 \<and>
   unat (1500000 :: 256 word) < 2 ^ 53 \<and>
   getUSDCBalance (fake_world (Some (fake_provider Pending)) 0 1500000)
     ''0x1234567890abcdef1234567890abcdef12345678'' = Resolved ''1.50'' \<and>
   (\<exists>n. \<bar>of_nat n / 100 - of_nat (unat (1500000 :: 256 word)) / 10 ^ 6\<bar> \<le> (1 / 200 :: rat) \<and>
        getUSDCBalance (fake_world (Some (fake_provider Pending)) 0 1500000)
          ''0x1234567890abcdef1234567890abcdef12345678'' =
        Resolved (dec (n div 100) @ ''.'' @ [digit (n div 10 mod 10), digit (n mod 10)]))"
proof -
  have 1: "checkMetaMask (fake_world (Some (fake_provider Pending)) 0 1500000)"
    by (simp add: checkMetaMask_def fake_world_def)
  have 2: "contract_balanceOf (fake_world (Some (fake_provider Pending)) 0 1500000) USDC_ADDRESS
     ''0x1234567890abcdef1234567890abcdef12345678'' = Resolved 1500000"
    by (simp add: fake_world_def)
  have 3: "unat (1500000 :: 256 word) < 2 ^ 53"
    by simp
  have 4: "getUSDCBalance (fake_world (Some (fake_provider Pending)) 0 1500000)
     ''0x1234567890abcdef1234567890abcdef12345678'' = Resolved ''1.50''"
    by (simp add: getUSDCBalance_def checkMetaMask_def fake_world_def quotient_1500000 toFixed_3_2)
  from 1 2 3 4 getUSDCBalance_nearest_hundredth [OF 1 2 3] show ?thesis
    by blast
qed

section \<open>Properties of the session shell\<close>

text \<open>
  C7. When the store holds an address under the key \<open>userAddress\<close> at startup (a string
  that \<open>if (savedAddress)\<close> accepts, that is, one that is not empty), the shell ends up
  logged in with exactly that address, and the world is the one it found: the log of
  \<open>request\<close> invocations has not grown, no wallet call was made.
\<close>

theorem startup_restores:
  assumes "localStorage w ''userAddress'' = Some savedAddress" and "savedAddress \<noteq> []"
  shows "startup w = (w, \<lparr>isLoggedIn = True, userAddress = Some savedAddress\<rparr>) \<and>
         requests (fst (startup w)) = requests w"
  using assms by (simp add: startup_def mount_effect_def initial_session_def)

theorem startup_restores_witness:
  "localStorage (fst (handleLoginSuccess ''0x1234...5678'' (fake_world None 0 0, initial_session)))
     ''userAddress'' = Some ''0x1234...5678'' \<and>
   ''0x1234...5678'' \<noteq> [] \<and>
   snd (startup (fst (handleLoginSuccess ''0x1234...5678'' (fake_world None 0 0, initial_session))))
     = \<lparr>isLoggedIn = True, userAddress = Some ''0x1234...5678''\<rparr> \<and>
   requests (fst (startup (fst (handleLoginSuccess ''0x1234...5678''
     (fake_world None 0 0, initial_session))))) = []"
  using startup_restores
    [of "fst (handleLoginSuccess ''0x1234...5678'' (fake_world None 0 0, initial_session))"
        "''0x1234...5678''"]
  by (simp add: handleLoginSuccess_def fake_world_def)

text \<open>
  C8. \<open>handleLogout\<close> clears both cells and deletes the key, so that a fresh start in the
  world it leaves is not logged in and has no address.
\<close>

theorem logout_then_startup:
  "isLoggedIn (snd (handleLogout (w, s))) = False \<and>
   userAddress (snd (handleLogout (w, s))) = None \<and>
   localStorage (fst (handleLogout (w, s))) ''userAddress'' = None \<and>
   snd (startup (fst (handleLogout (w, s)))) = \<lparr>isLoggedIn = False, userAddress = None\<rparr>"
  by (simp add: handleLogout_def startup_def mount_effect_def initial_session_def)

lemma mount_effect_keeps:
  "(isLoggedIn (snd ws) \<longrightarrow> userAddress (snd ws) \<noteq> None) \<Longrightarrow>
   isLoggedIn (snd (mount_effect ws)) \<longrightarrow> userAddress (snd (mount_effect ws)) \<noteq> None"
  by (cases ws) (auto simp add: mount_effect_def split: option.splits)

lemma handleLoginSuccess_sets:
  "isLoggedIn (snd (handleLoginSuccess address ws)) \<and>
   userAddress (snd (handleLoginSuccess address ws)) = Some address"
  by (cases ws) (simp add: handleLoginSuccess_def)

lemma handleLogout_clears:
  "\<not> isLoggedIn (snd (handleLogout ws)) \<and> userAddress (snd (handleLogout ws)) = None"
  by (cases ws) (simp add: handleLogout_def)

lemma step_keeps:
  "(isLoggedIn (snd ws) \<longrightarrow> userAddress (snd ws) \<noteq> None) \<Longrightarrow>
   isLoggedIn (snd (step ws e)) \<longrightarrow> userAddress (snd (step ws e)) \<noteq> None"
  by (cases e) (simp_all add: mount_effect_keeps handleLoginSuccess_sets handleLogout_clears)

lemma foldl_step_keeps:
  "(isLoggedIn (snd ws) \<longrightarrow> userAddress (snd ws) \<noteq> None) \<Longrightarrow>
   isLoggedIn (snd (foldl step ws events)) \<longrightarrow> userAddress (snd (foldl step ws events)) \<noteq> None"
proof (induction events arbitrary: ws)
  case Nil
  then show ?case by simp
next
  case (Cons e events)
  from Cons.prems have "isLoggedIn (snd (step ws e)) \<longrightarrow> userAddress (snd (step ws e)) \<noteq> None"
    by (rule step_keeps)
  then show ?case
    using Cons.IH [of "step ws e"] by simp
qed

text \<open>
  C9. In every state the shell reaches from a start in any world, by the mount effect,
  logins and logouts in any number and order: if the session is logged in, it has an
  address.
\<close>

theorem session_invariant:
  "isLoggedIn (snd (run w events)) \<longrightarrow> userAddress (snd (run w events)) \<noteq> None"
  unfolding run_def by (rule foldl_step_keeps) (simp add: initial_session_def)

theorem session_invariant_witness:
  "isLoggedIn (snd (run (fake_world None 0 0) [Mount, Login ''0x1234...5678''])) \<and>
   userAddress (snd (run (fake_world None 0 0) [Mount, Login ''0x1234...5678''])) \<noteq> None"
proof -
  have "isLoggedIn (snd (run (fake_world None 0 0) [Mount, Login ''0x1234...5678'']))"
    by (simp add: run_def handleLoginSuccess_sets)
  with session_invariant [of "fake_world None 0 0" "[Mount, Login ''0x1234...5678'']"]
  show ?thesis by simp
qed

end
